theory Spec2Isabelle
  imports Main "HOL-Library.Sublist"
begin

section \<open>Values, errors and configuration\<close>

text \<open>
  Python strings are modelled as \<open>string\<close>: a list of characters with code points below
  256. Values decoded from a lock record by \<open>json.loads\<close> are modelled by \<open>json\<close>; a
  float is kept as mantissa and binary exponent (\<open>JFloat m e\<close> is \<open>m * 2 ^ e\<close>), and an
  object as the list of its members, looked up at the first match.
\<close>

datatype json =
    JNull
  | JBool bool
  | JInt int
  | JFloat int int
  | JString string
  | JArray "json list"
  | JObject "(string \<times> json) list"

text \<open>\<open>d.get(k)\<close> on a Python dict: the value, or \<open>None\<close> when the key is missing.\<close>

definition dict_get :: "(string \<times> json) list \<Rightarrow> string \<Rightarrow> json" where
  "dict_get d k = (case map_of d k of None \<Rightarrow> JNull | Some v \<Rightarrow> v)"

text \<open>Python truth value of a decoded value (\<open>if locked_at_str:\<close>, \<open>if conv_id:\<close>).\<close>

fun truthy :: "json \<Rightarrow> bool" where
  "truthy JNull = False"
| "truthy (JBool b) = b"
| "truthy (JInt i) = (i \<noteq> 0)"
| "truthy (JFloat m e) = (m \<noteq> 0)"
| "truthy (JString s) = (s \<noteq> [])"
| "truthy (JArray xs) = (xs \<noteq> [])"
| "truthy (JObject d) = (d \<noteq> [])"

text \<open>
  The \<open>code\<close> of a \<open>StorageError\<close>. \<open>FILE_LOCKED\<close> carries its details \<open>locked_by\<close>,
  \<open>locked_since\<close> and \<open>path\<close>; messages, hints and the details of the other errors are
  not modelled. \<open>PyException\<close> is any other Python exception: every public operation
  catches it and answers \<open>{success: false, message}\<close>. \<open>NO_UPLOADS\<close> is the same kind of
  answer, given by \<open>store_uploads_exec\<close> itself.
\<close>

datatype error =
    PATH_ESCAPE
  | COMMAND_FORBIDDEN
  | ARGUMENT_FORBIDDEN
  | FILE_NOT_FOUND
  | FILE_LOCKED json json json
  | QUOTA_EXCEEDED
  | ZONE_FORBIDDEN
  | TIMEOUT
  | COMMAND_NOT_FOUND
  | EXEC_ERROR
  | NO_UPLOADS
  | PyException

section \<open>Command lists\<close>

definition WHITELIST_READONLY :: "string list" where
  "WHITELIST_READONLY =
    [''cat'', ''head'', ''tail'', ''less'', ''more'', ''nl'', ''wc'', ''stat'', ''file'', ''du'', ''tac'',
     ''ls'', ''tree'', ''find'',
     ''grep'', ''egrep'', ''fgrep'', ''rg'', ''awk'', ''sed'',
     ''sort'', ''uniq'', ''cut'', ''paste'', ''tr'', ''fold'', ''fmt'', ''column'', ''rev'', ''shuf'',
     ''expand'', ''unexpand'', ''pr'',
     ''join'',
     ''diff'', ''diff3'', ''cmp'', ''comm'',
     ''tar'', ''unzip'', ''zipinfo'', ''7z'',
     ''zcat'', ''bzcat'', ''xzcat'',
     ''md5sum'', ''sha1sum'', ''sha256sum'', ''sha512sum'', ''b2sum'', ''cksum'',
     ''base32'', ''base64'', ''basenc'',
     ''strings'', ''od'', ''hexdump'', ''xxd'',
     ''jq'', ''xmllint'', ''yq'',
     ''iconv'',
     ''bc'', ''dc'', ''expr'', ''factor'', ''numfmt'',
     ''basename'', ''dirname'', ''realpath'',
     ''echo'', ''printf'',
     ''ffprobe'', ''identify'', ''exiftool'',
     ''sqlite3'']"

definition WHITELIST_READWRITE :: "string list" where
  "WHITELIST_READWRITE = WHITELIST_READONLY @
    [''df'', ''locate'', ''which'', ''whereis'',
     ''split'', ''csplit'',
     ''sdiff'', ''patch'', ''colordiff'',
     ''zip'', ''7za'',
     ''gzip'', ''gunzip'', ''bzip2'', ''bunzip2'', ''xz'', ''unxz'', ''lz4'', ''zstd'',
     ''sum'',
     ''uuencode'', ''uudecode'',
     ''touch'', ''mkdir'', ''rm'', ''rmdir'', ''mv'', ''cp'', ''ln'', ''truncate'', ''mktemp'',
     ''install'', ''shred'', ''rename'',
     ''chmod'',
     ''pandoc'',
     ''dos2unix'', ''unix2dos'', ''recode'',
     ''seq'',
     ''date'', ''cal'',
     ''readlink'', ''pathchk'', ''pwd'',
     ''uname'', ''nproc'', ''printenv'', ''env'',
     ''timeout'', ''sleep'',
     ''yes'', ''tee'', ''xargs'', ''envsubst'', ''gettext'', ''tsort'', ''true'', ''false'',
     ''ffmpeg'', ''magick'', ''convert'',
     ''git'']"

definition GIT_WHITELIST_READ :: "string list" where
  "GIT_WHITELIST_READ =
    [''status'', ''log'', ''show'', ''diff'', ''branch'', ''tag'', ''blame'', ''ls-files'',
     ''ls-tree'', ''shortlog'', ''reflog'', ''describe'', ''rev-parse'', ''rev-list'', ''cat-file'']"

definition GIT_WHITELIST_WRITE :: "string list" where
  "GIT_WHITELIST_WRITE =
    [''add'', ''commit'', ''reset'', ''restore'', ''checkout'', ''rm'', ''mv'', ''revert'',
     ''cherry-pick'', ''stash'', ''clean'']"

definition GIT_BLACKLIST :: "string list" where
  "GIT_BLACKLIST =
    [''push'', ''pull'', ''fetch'', ''clone'', ''remote'', ''gc'', ''prune'', ''filter-branch'']"

definition BLACKLIST_COMMANDS :: "string list" where
  "BLACKLIST_COMMANDS =
    [''bash'', ''sh'', ''zsh'', ''fish'', ''dash'', ''csh'', ''tcsh'', ''ksh'',
     ''python'', ''python3'', ''perl'', ''ruby'', ''node'', ''php'', ''lua'',
     ''exec'', ''eval'', ''source'',
     ''nohup'', ''disown'', ''setsid'', ''screen'', ''tmux'', ''at'', ''batch'', ''crontab'',
     ''sudo'', ''su'', ''doas'', ''chown'', ''chgrp'',
     ''wget'', ''curl'', ''fetch'', ''ssh'', ''scp'', ''sftp'', ''rsync'',
     ''nc'', ''netcat'', ''ncat'', ''telnet'', ''ftp'', ''ping'', ''traceroute'',
     ''dd'', ''mount'', ''umount'', ''kill'', ''killall'', ''pkill'',
     ''reboot'', ''shutdown'', ''halt'', ''poweroff'',
     ''systemctl'', ''service'', ''mkfs'', ''fdisk'', ''parted'',
     ''iptables'', ''firewall-cmd'']"

section \<open>Command validation\<close>

text \<open>\<open>_validate_git_command\<close>: the first argument is the subcommand.\<close>

definition validate_git_command :: "string list \<Rightarrow> error + unit" where
  "validate_git_command args =
    (case args of
       [] \<Rightarrow> Inl ARGUMENT_FORBIDDEN
     | subcmd # _ \<Rightarrow>
         if subcmd \<in> set GIT_BLACKLIST then Inl COMMAND_FORBIDDEN
         else if subcmd \<notin> set GIT_WHITELIST_READ \<and> subcmd \<notin> set GIT_WHITELIST_WRITE
           then Inl COMMAND_FORBIDDEN
         else Inr ())"

text \<open>
  \<open>_validate_command\<close>: blacklist first, then the zone's whitelist, then the Git
  sub-policy. \<open>args\<close> is \<open>None\<close> where the caller passes no argument list.
\<close>

definition validate_command :: "string \<Rightarrow> string list \<Rightarrow> string list option \<Rightarrow> error + unit" where
  "validate_command cmd whitelist args =
    (if cmd \<in> set BLACKLIST_COMMANDS then Inl COMMAND_FORBIDDEN
     else if cmd \<notin> set whitelist then Inl COMMAND_FORBIDDEN
     else if cmd = ''git'' \<and> args \<noteq> None then validate_git_command (the args)
     else Inr ())"

section \<open>Argument validation\<close>

text \<open>
  The characters that \<open>\s\<close> matches in a Python \<open>str\<close> pattern, among the code points
  below 256: tab to carriage return, the four separators 28 to 31, space, NEL and the
  no-break space.
\<close>

definition is_space :: "char \<Rightarrow> bool" where
  "is_space c = (let n = (of_char c :: nat) in
     (9 \<le> n \<and> n \<le> 13) \<or> (28 \<le> n \<and> n \<le> 32) \<or> n = 133 \<or> n = 160)"

text \<open>The character class \<open>[;&|`$\n\r]\<close> of \<open>DANGEROUS_ARGS_PATTERN\<close>.\<close>

definition special_chars :: string where
  "special_chars = [CHR '';'', CHR ''&'', CHR ''|'', CHR 0x60, CHR ''$'', CHR 0x0A, CHR 0x0D]"

text \<open>
  One alternative of \<open>DANGEROUS_ARGS_PATTERN\<close> matches at the start of the string; the
  alternatives are kept in the order of the source.
\<close>

fun dangerous_match_here :: "string \<Rightarrow> bool" where
  "dangerous_match_here [] = False"
| "dangerous_match_here (c # cs) =
    (c \<in> set special_chars
     \<or> prefix ''&&'' (c # cs)
     \<or> prefix ''||'' (c # cs)
     \<or> prefix ''>>'' (c # cs)
     \<or> prefix ''<<'' (c # cs)
     \<or> (c = CHR ''>'' \<and> cs \<noteq> [] \<and> is_space (hd cs))
     \<or> (c = CHR ''<'' \<and> cs \<noteq> [] \<and> is_space (hd cs))
     \<or> prefix ''$('' (c # cs)
     \<or> prefix ''${'' (c # cs))"

text \<open>\<open>DANGEROUS_ARGS_PATTERN.search\<close>: the pattern matches at some position.\<close>

fun DANGEROUS_ARGS_PATTERN_search :: "string \<Rightarrow> bool" where
  "DANGEROUS_ARGS_PATTERN_search [] = False"
| "DANGEROUS_ARGS_PATTERN_search (c # cs) =
    (dangerous_match_here (c # cs) \<or> DANGEROUS_ARGS_PATTERN_search cs)"

text \<open>\<open>_validate_args\<close>; the arguments are taken after \<open>str(arg)\<close>.\<close>

fun validate_args :: "string list \<Rightarrow> bool \<Rightarrow> error + unit" where
  "validate_args [] readonly = Inr ()"
| "validate_args (arg_str # args) readonly =
    (if DANGEROUS_ARGS_PATTERN_search arg_str then Inl ARGUMENT_FORBIDDEN
     else if readonly \<and> arg_str = ''-i'' then Inl ARGUMENT_FORBIDDEN
     else validate_args args readonly)"

text \<open>\<open>pat in s\<close> for Python strings: \<open>pat\<close> occurs in \<open>s\<close> as a contiguous substring.\<close>

fun contains :: "string \<Rightarrow> string \<Rightarrow> bool" where
  "contains pat [] = (pat = [])"
| "contains pat (c # cs) = (prefix pat (c # cs) \<or> contains pat cs)"





section \<open>Paths\<close>

text \<open>
  A \<open>Path\<close> is modelled by the list of its components below the file-system root, as
  \<open>pathlib\<close> keeps them: without empty components and without \<open>.\<close> components. The
  file system of the model has no symbolic links.
\<close>

type_synonym path = "string list"

text \<open>\<open>s.split(sep)\<close> for a one-character separator.\<close>

fun split_on :: "char \<Rightarrow> string \<Rightarrow> string list" where
  "split_on sep [] = [[]]"
| "split_on sep (c # cs) =
    (if c = sep then [] # split_on sep cs
     else (case split_on sep cs of [] \<Rightarrow> [[c]] | w # ws \<Rightarrow> (c # w) # ws))"

text \<open>\<open>sep.join(parts)\<close>.\<close>

fun join_with :: "string \<Rightarrow> string list \<Rightarrow> string" where
  "join_with sep [] = []"
| "join_with sep [p] = p"
| "join_with sep (p # q # ps) = p @ sep @ join_with sep (q # ps)"

text \<open>\<open>s.lstrip("/")\<close>.\<close>

definition lstrip_slash :: "string \<Rightarrow> string" where
  "lstrip_slash s = dropWhile (\<lambda>c. c = CHR ''/'') s"

text \<open>The components \<open>pathlib\<close> keeps of a path string: empty ones and \<open>.\<close> are dropped.\<close>

definition path_parts :: "string \<Rightarrow> path" where
  "path_parts s = filter (\<lambda>c. c \<noteq> [] \<and> c \<noteq> ''.'') (split_on (CHR ''/'') s)"

text \<open>\<open>base / s\<close>: a string that starts with a slash replaces the base.\<close>

definition pjoin :: "path \<Rightarrow> string \<Rightarrow> path" where
  "pjoin base s = (if s \<noteq> [] \<and> hd s = CHR ''/'' then path_parts s else base @ path_parts s)"

text \<open>
  \<open>Path.resolve()\<close> without symbolic links: \<open>..\<close> drops the component before it, and
  stays at the file-system root when there is none.
\<close>

definition resolve_step :: "path \<Rightarrow> string \<Rightarrow> path" where
  "resolve_step stack c = (if c = ''..'' then butlast stack else stack @ [c])"

definition resolve :: "path \<Rightarrow> path" where
  "resolve p = foldl resolve_step [] p"

text \<open>
  \<open>_resolve_chroot_path\<close>. \<open>resolve()\<close> raises \<open>ValueError\<close> on a path with a NUL
  character, before the \<open>try\<close>; \<open>relative_to\<close> raises \<open>ValueError\<close> when the resolved
  base is not a prefix of the target.
\<close>

definition resolve_chroot_path :: "path \<Rightarrow> string \<Rightarrow> error + path" where
  "resolve_chroot_path base relative_path =
    (let relative_path = lstrip_slash relative_path in
     if CHR 0x00 \<in> set relative_path then Inl PyException
     else
       let target = resolve (pjoin base relative_path);
           base_resolved = resolve base
       in if prefix base_resolved target then Inr target else Inl PATH_ESCAPE)"

text \<open>The loop of \<open>_validate_relative_path\<close> over the segments, with its stack \<open>parts\<close>.\<close>

fun validate_parts :: "string list \<Rightarrow> string list \<Rightarrow> error + string list" where
  "validate_parts parts [] = Inr parts"
| "validate_parts parts (part # rest) =
    (if part = ''..'' then
       (if parts = [] then Inl PATH_ESCAPE else validate_parts (butlast parts) rest)
     else if part \<noteq> [] \<and> part \<noteq> ''.'' then validate_parts (parts @ [part]) rest
     else validate_parts parts rest)"

text \<open>\<open>_validate_relative_path\<close>: the cleaned path, as a string.\<close>

definition validate_relative_path :: "string \<Rightarrow> error + string" where
  "validate_relative_path path =
    (let path = lstrip_slash path in
     if path \<noteq> [] \<and> hd path = CHR ''/'' then Inl PATH_ESCAPE
     else (case validate_parts [] (split_on (CHR ''/'') path) of
             Inl e \<Rightarrow> Inl e
           | Inr parts \<Rightarrow> Inr (join_with ''/'' parts)))"

text \<open>
  The specification's words: a path ascends above the root when, reading its
  segments from the left at depth 0, a \<open>..\<close> comes at depth 0; a path that never does
  is contained within the root.
\<close>

fun ascends_from :: "nat \<Rightarrow> string list \<Rightarrow> bool" where
  "ascends_from d [] = False"
| "ascends_from d (s # ss) =
    (if s = ''..'' then (d = 0 \<or> ascends_from (d - 1) ss)
     else if s = [] \<or> s = ''.'' then ascends_from d ss
     else ascends_from (Suc d) ss)"

definition ascends_above_root :: "string \<Rightarrow> bool" where
  "ascends_above_root p = ascends_from 0 (split_on (CHR ''/'') p)"

text \<open>Components that are plain names: not empty, not \<open>.\<close> or \<open>..\<close>, and without a slash.\<close>

definition clean :: "string list \<Rightarrow> bool" where
  "clean ps = (\<forall>c \<in> set ps. c \<noteq> [] \<and> c \<noteq> ''.'' \<and> c \<noteq> ''..'' \<and> CHR ''/'' \<notin> set c)"

section \<open>File system\<close>

text \<open>
  The file system is a list of bindings from absolute paths to entries, read at the
  first binding of a path; the root \<open>[]\<close> is always a directory. A file holds
  its text. Paths handed to the operations below have no \<open>..\<close> component: the user's
  directory is a normalised path, validated paths are clean, and the theorems on the
  edit zone take a conversation identifier that is a plain file name. File metadata,
  permissions and symbolic links are not modelled. An operation that raises \<open>OSError\<close>
  returns \<open>None\<close>.
\<close>

datatype entry = File string | Dir

type_synonym filesystem = "(path \<times> entry) list"

definition lookup :: "filesystem \<Rightarrow> path \<Rightarrow> entry option" where
  "lookup fs p = (if p = [] then Some Dir else map_of fs p)"

text \<open>\<open>Path.exists()\<close>, \<open>Path.is_dir()\<close>, \<open>Path.is_file()\<close>.\<close>

definition exists :: "filesystem \<Rightarrow> path \<Rightarrow> bool" where
  "exists fs p = (lookup fs p \<noteq> None)"

definition is_dir :: "filesystem \<Rightarrow> path \<Rightarrow> bool" where
  "is_dir fs p = (lookup fs p = Some Dir)"

definition is_file :: "filesystem \<Rightarrow> path \<Rightarrow> bool" where
  "is_file fs p = (case lookup fs p of Some (File c) \<Rightarrow> True | _ \<Rightarrow> False)"


text \<open>\<open>Path.read_text()\<close>: fails on a directory and on a missing file.\<close>

definition read_text :: "filesystem \<Rightarrow> path \<Rightarrow> string option" where
  "read_text fs p = (case lookup fs p of Some (File c) \<Rightarrow> Some c | _ \<Rightarrow> None)"

text \<open>Removing the binding of one path, and the bindings of a whole subtree.\<close>

definition unbind :: "path \<Rightarrow> filesystem \<Rightarrow> filesystem" where
  "unbind p fs = filter (\<lambda>b. fst b \<noteq> p) fs"

definition unbind_tree :: "path \<Rightarrow> filesystem \<Rightarrow> filesystem" where
  "unbind_tree p fs = filter (\<lambda>b. \<not> prefix p (fst b)) fs"

text \<open>
  \<open>Path.write_text(s)\<close>: fails when the path is a directory or its parent is not an
  existing directory; otherwise the file holds \<open>s\<close>.
\<close>

definition write_text :: "filesystem \<Rightarrow> path \<Rightarrow> string \<Rightarrow> filesystem option" where
  "write_text fs p s =
    (if is_dir fs p \<or> \<not> is_dir fs (butlast p) then None
     else Some ((p, File s) # unbind p fs))"

text \<open>
  \<open>_ensure_dir\<close>, that is \<open>mkdir(parents=True, exist_ok=True)\<close>: fails, creating
  nothing, when the path or one of its ancestors is a file; otherwise creates the
  directories that are missing.
\<close>

definition ensure_dir :: "filesystem \<Rightarrow> path \<Rightarrow> filesystem option" where
  "ensure_dir fs p =
    (if list_ex (is_file fs) (prefixes p) then None
     else Some (map (\<lambda>q. (q, Dir)) (filter (\<lambda>q. \<not> exists fs q) (prefixes p)) @ fs))"

text \<open>
  \<open>Path.unlink()\<close> and \<open>shutil.rmtree\<close>; every call in the source comes after the
  test that the path exists and is, respectively is not, a regular file.
\<close>

definition unlink :: "filesystem \<Rightarrow> path \<Rightarrow> filesystem" where
  "unlink fs p = unbind p fs"

definition rmtree :: "filesystem \<Rightarrow> path \<Rightarrow> filesystem" where
  "rmtree fs p = unbind_tree p fs"

text \<open>
  \<open>Path.rmdir()\<close>: fails unless the path is an existing, empty directory other than
  the root.
\<close>

definition rmdir :: "filesystem \<Rightarrow> path \<Rightarrow> filesystem option" where
  "rmdir fs p =
    (if p \<noteq> [] \<and> is_dir fs p \<and> \<not> list_ex (\<lambda>b. strict_prefix p (fst b)) fs
     then Some (unbind p fs) else None)"

text \<open>
  \<open>shutil.copy2(src, dst)\<close>: into the directory \<open>dst\<close> under the name of \<open>src\<close> when
  \<open>dst\<close> is a directory; fails when both are the same file, when \<open>src\<close> is not a
  regular file, and when the destination cannot be written.
\<close>

definition copy2 :: "filesystem \<Rightarrow> path \<Rightarrow> path \<Rightarrow> filesystem option" where
  "copy2 fs src dst =
    (let dst = (if is_dir fs dst then dst @ [last src] else dst) in
     if src = dst then None
     else (case read_text fs src of
             None \<Rightarrow> None
           | Some c \<Rightarrow> write_text fs dst c))"

text \<open>
  \<open>shutil.copytree(src, dst)\<close>: fails when \<open>dst\<close> exists or cannot be created;
  otherwise creates \<open>dst\<close> with its missing ancestors and copies the subtree of \<open>src\<close>
  under it. At every call site \<open>dst\<close> lies outside the subtree of \<open>src\<close>.
\<close>

definition copytree :: "filesystem \<Rightarrow> path \<Rightarrow> path \<Rightarrow> filesystem option" where
  "copytree fs src dst =
    (if exists fs dst then None
     else (case ensure_dir fs (butlast dst) of
             None \<Rightarrow> None
           | Some fs' \<Rightarrow>
               Some (map (\<lambda>b. (dst @ drop (length src) (fst b), snd b))
                       (filter (\<lambda>b. prefix src (fst b)) fs) @ fs')))"

text \<open>
  The loop of \<open>_rm_with_empty_parents\<close>: from \<open>parent\<close> upwards, remove directories
  until \<open>stop_at\<close> is reached or a directory cannot be removed. \<open>resolve()\<close> is the
  identity on the paths of the model.
\<close>

function remove_empty_parents :: "filesystem \<Rightarrow> path \<Rightarrow> path \<Rightarrow> filesystem" where
  "remove_empty_parents fs parent stop_at =
    (if parent = stop_at then fs
     else (case rmdir fs parent of
             None \<Rightarrow> fs
           | Some fs' \<Rightarrow> remove_empty_parents fs' (butlast parent) stop_at))"
  by pat_completeness auto
termination
  by (relation "measure (\<lambda>(fs, parent, stop_at). length parent)")
     (auto simp: rmdir_def split: if_splits)

declare remove_empty_parents.simps [simp del]

text \<open>\<open>_rm_with_empty_parents\<close>.\<close>

definition rm_with_empty_parents :: "filesystem \<Rightarrow> path \<Rightarrow> path \<Rightarrow> filesystem" where
  "rm_with_empty_parents fs filepath stop_at =
    (let fs1 = (if exists fs filepath
                then (if is_dir fs filepath then rmtree fs filepath else unlink fs filepath)
                else fs)
     in remove_empty_parents fs1 (butlast filepath) stop_at)"

section \<open>Host functions and configuration\<close>

text \<open>
  The library functions the code calls are parameters of the model.
  \<open>json_loads\<close> is \<open>json.loads\<close>, with \<open>None\<close> for \<open>JSONDecodeError\<close>; \<open>json_dumps\<close> is
  \<open>json.dumps(_, indent=2)\<close>. Instants are integers, the microseconds since the epoch:
  \<open>isoformat\<close> prints one as \<open>datetime.isoformat\<close> does, and \<open>fromisoformat\<close> is
  \<open>datetime.fromisoformat\<close>, with \<open>None\<close> when it raises \<open>ValueError\<close> and when it
  gives a datetime without time zone, whose subtraction from the current instant
  raises \<open>TypeError\<close>: the source handles the two alike. \<open>run_process\<close> is
  \<open>subprocess.run\<close> with a command line, a working directory and a timeout.
\<close>

datatype proc_outcome =
    Completed int string string
  | TimeoutExpired
  | ProgramNotFound
  | OtherFailure

record host =
  json_loads :: "string \<Rightarrow> json option"
  json_dumps :: "json \<Rightarrow> string"
  isoformat :: "int \<Rightarrow> string"
  fromisoformat :: "string \<Rightarrow> int option"
  run_process :: "string list \<Rightarrow> path \<Rightarrow> int option \<Rightarrow> filesystem \<Rightarrow> proc_outcome \<times> filesystem"

text \<open>The \<open>Valves\<close> the code reads.\<close>

record valves =
  max_file_size_mb :: int
  lock_max_age_hours :: int
  exec_timeout_max :: int

section \<open>Locks and the edit zone\<close>

text \<open>\<open>_get_lock_path\<close> and \<open>_get_editzone_path\<close>.\<close>

definition get_lock_path :: "path \<Rightarrow> string \<Rightarrow> path" where
  "get_lock_path zone_root relative_path =
     pjoin (zone_root @ [''locks'']) (relative_path @ ''.lock'')"

definition get_editzone_path :: "path \<Rightarrow> string \<Rightarrow> string \<Rightarrow> path" where
  "get_editzone_path zone_root conv_id relative_path =
     pjoin (pjoin (zone_root @ [''editzone'']) conv_id) relative_path"

text \<open>
  \<open>_check_lock\<close>: \<open>None\<close> when the check passes. Only \<open>JSONDecodeError\<close> is caught: a
  lock path that cannot be read, and a decoded value without \<open>get\<close> (anything but an
  object), raise another exception.
\<close>

definition check_lock :: "host \<Rightarrow> filesystem \<Rightarrow> path \<Rightarrow> string \<Rightarrow> error option" where
  "check_lock h fs lock_path conv_id =
    (if exists fs lock_path then
       (case read_text fs lock_path of
          None \<Rightarrow> Some PyException
        | Some text \<Rightarrow>
            (case json_loads h text of
               None \<Rightarrow> None
             | Some (JObject lock_data) \<Rightarrow>
                 if dict_get lock_data ''conv_id'' \<noteq> JString conv_id
                 then Some (FILE_LOCKED (dict_get lock_data ''conv_id'')
                              (dict_get lock_data ''locked_at'') (dict_get lock_data ''path''))
                 else None
             | Some _ \<Rightarrow> Some PyException))
     else None)"

text \<open>The record \<open>_create_lock\<close> writes, at the instant \<open>now\<close>.\<close>

definition lock_record :: "host \<Rightarrow> string \<Rightarrow> string \<Rightarrow> string \<Rightarrow> int \<Rightarrow> json" where
  "lock_record h conv_id user_id path now =
     JObject [(''conv_id'', JString conv_id), (''user_id'', JString user_id),
              (''locked_at'', JString (isoformat h now)), (''path'', JString path)]"

text \<open>\<open>_create_lock\<close>: the new file system, or \<open>PyException\<close> and what was done before it.\<close>

definition create_lock ::
  "host \<Rightarrow> filesystem \<Rightarrow> path \<Rightarrow> string \<Rightarrow> string \<Rightarrow> string \<Rightarrow> int \<Rightarrow> (error + unit) \<times> filesystem" where
  "create_lock h fs lock_path conv_id user_id path now =
    (case ensure_dir fs (butlast lock_path) of
       None \<Rightarrow> (Inl PyException, fs)
     | Some fs1 \<Rightarrow>
         (case write_text fs1 lock_path (json_dumps h (lock_record h conv_id user_id path now)) of
            None \<Rightarrow> (Inl PyException, fs1)
          | Some fs2 \<Rightarrow> (Inr (), fs2)))"

text \<open>
  \<open>store_storage_edit_open\<close> and \<open>store_documents_edit_open\<close>: the two differ in the
  name of the zone only. \<open>user_root\<close> is the user's directory, \<open>user_id\<close> and \<open>conv_id\<close>
  are the identifiers read from the call's context, \<open>now\<close> is the clock.
\<close>

definition edit_open ::
  "host \<Rightarrow> string \<Rightarrow> filesystem \<Rightarrow> path \<Rightarrow> string \<Rightarrow> string \<Rightarrow> int \<Rightarrow> string
     \<Rightarrow> (error + unit) \<times> filesystem" where
  "edit_open h zone fs user_root user_id conv_id now path =
    (case validate_relative_path path of
       Inl e \<Rightarrow> (Inl e, fs)
     | Inr path \<Rightarrow>
        (let zone_root = user_root @ [zone];
             data_path = pjoin (zone_root @ [''data'']) path;
             lock_path = get_lock_path zone_root path;
             edit_path = get_editzone_path zone_root conv_id path
         in if \<not> exists fs data_path then (Inl FILE_NOT_FOUND, fs)
            else (case check_lock h fs lock_path conv_id of
                    Some e \<Rightarrow> (Inl e, fs)
                  | None \<Rightarrow>
                     (case create_lock h fs lock_path conv_id user_id path now of
                        (Inl e, fs1) \<Rightarrow> (Inl e, fs1)
                      | (Inr _, fs1) \<Rightarrow>
                         (case ensure_dir fs1 (butlast edit_path) of
                            None \<Rightarrow> (Inl PyException, fs1)
                          | Some fs2 \<Rightarrow>
                             (case (if is_dir fs2 data_path
                                    then copytree fs2 data_path edit_path
                                    else copy2 fs2 data_path edit_path) of
                                None \<Rightarrow> (Inl PyException, fs2)
                              | Some fs3 \<Rightarrow> (Inr (), fs3)))))))"

definition store_storage_edit_open ::
  "host \<Rightarrow> filesystem \<Rightarrow> path \<Rightarrow> string \<Rightarrow> string \<Rightarrow> int \<Rightarrow> string \<Rightarrow> (error + unit) \<times> filesystem" where
  "store_storage_edit_open h = edit_open h ''Storage''"

definition store_documents_edit_open ::
  "host \<Rightarrow> filesystem \<Rightarrow> path \<Rightarrow> string \<Rightarrow> string \<Rightarrow> int \<Rightarrow> string \<Rightarrow> (error + unit) \<times> filesystem" where
  "store_documents_edit_open h = edit_open h ''Documents''"

text \<open>
  \<open>store_storage_edit_cancel\<close> and \<open>store_documents_edit_cancel\<close>, which again differ
  in the name of the zone only.
\<close>

definition edit_cancel ::
  "string \<Rightarrow> filesystem \<Rightarrow> path \<Rightarrow> string \<Rightarrow> string \<Rightarrow> (error + unit) \<times> filesystem" where
  "edit_cancel zone fs user_root conv_id path =
    (case validate_relative_path path of
       Inl e \<Rightarrow> (Inl e, fs)
     | Inr path \<Rightarrow>
        (let zone_root = user_root @ [zone];
             lock_path = get_lock_path zone_root path;
             edit_path = get_editzone_path zone_root conv_id path;
             fs1 = (if exists fs edit_path
                    then rm_with_empty_parents fs edit_path (zone_root @ [''editzone''])
                    else fs);
             fs2 = (if exists fs1 lock_path
                    then rm_with_empty_parents fs1 lock_path (zone_root @ [''locks''])
                    else fs1)
         in (Inr (), fs2)))"

definition store_storage_edit_cancel ::
  "filesystem \<Rightarrow> path \<Rightarrow> string \<Rightarrow> string \<Rightarrow> (error + unit) \<times> filesystem" where
  "store_storage_edit_cancel = edit_cancel ''Storage''"

definition store_documents_edit_cancel ::
  "filesystem \<Rightarrow> path \<Rightarrow> string \<Rightarrow> string \<Rightarrow> (error + unit) \<times> filesystem" where
  "store_documents_edit_cancel = edit_cancel ''Documents''"

section \<open>A sample host and sample file systems\<close>

text \<open>
  The record that \<open>_create_lock\<close> writes for the conversation \<open>c1\<close> of the user \<open>u1\<close>
  on \<open>proj/a.txt\<close> at the epoch, and its text as \<open>json.dumps(_, indent=2)\<close> prints it.
\<close>

definition sample_lock_data :: "(string \<times> json) list" where
  "sample_lock_data =
     [(''conv_id'', JString ''c1''), (''user_id'', JString ''u1''),
      (''locked_at'', JString ''1970-01-01T00:00:00+00:00''), (''path'', JString ''proj/a.txt'')]"

definition sample_lock_text :: string where
  "sample_lock_text =
     ''{'' @ [CHR 0x0A] @
     ''  \"conv_id\": \"c1\",'' @ [CHR 0x0A] @
     ''  \"user_id\": \"u1\",'' @ [CHR 0x0A] @
     ''  \"locked_at\": \"1970-01-01T00:00:00+00:00\",'' @ [CHR 0x0A] @
     ''  \"path\": \"proj/a.txt\"'' @ [CHR 0x0A] @
     ''}''"

text \<open>
  A host for the examples. It decodes the sample text, \<open>{}\<close> and \<open>[]\<close> as \<open>json.loads\<close>
  does and rejects the other texts of the examples, none of which is JSON; it encodes
  the sample record; its clock prints and reads the epoch; it has no program installed.
\<close>

definition sample_host :: host where
  "sample_host =
     \<lparr> json_loads = (\<lambda>s. if s = sample_lock_text then Some (JObject sample_lock_data)
                         else if s = ''{}'' then Some (JObject [])
                         else if s = ''[]'' then Some (JArray [])
                         else None),
       json_dumps = (\<lambda>j. if j = JObject sample_lock_data then sample_lock_text else ''null''),
       isoformat = (\<lambda>t. if t = 0 then ''1970-01-01T00:00:00+00:00'' else ''''),
       fromisoformat = (\<lambda>s. if s = ''1970-01-01T00:00:00+00:00'' then Some 0 else None),
       run_process = (\<lambda>cmd cwd timeout fs. (ProgramNotFound, fs)) \<rparr>"

text \<open>The storage zone of the user directory \<open>/u\<close> with the file \<open>proj/a.txt\<close>.\<close>

definition sample_fs :: filesystem where
  "sample_fs =
     [([''u''], Dir), ([''u'', ''Storage''], Dir), ([''u'', ''Storage'', ''data''], Dir),
      ([''u'', ''Storage'', ''data'', ''proj''], Dir),
      ([''u'', ''Storage'', ''data'', ''proj'', ''a.txt''], File ''hello'')]"

text \<open>
  The same zone while the conversation \<open>c1\<close> edits \<open>proj/a.txt\<close>: the lock record holds
  \<open>text\<close>, and the edit-zone copy has been changed.
\<close>

definition sample_fs_locked :: "string \<Rightarrow> filesystem" where
  "sample_fs_locked text =
     [([''u'', ''Storage'', ''locks''], Dir),
      ([''u'', ''Storage'', ''locks'', ''proj''], Dir),
      ([''u'', ''Storage'', ''locks'', ''proj'', ''a.txt.lock''], File text),
      ([''u'', ''Storage'', ''editzone''], Dir),
      ([''u'', ''Storage'', ''editzone'', ''c1''], Dir),
      ([''u'', ''Storage'', ''editzone'', ''c1'', ''proj''], Dir),
      ([''u'', ''Storage'', ''editzone'', ''c1'', ''proj'', ''a.txt''], File ''hello, edited'')]
     @ sample_fs"

section \<open>Command execution and writes\<close>

text \<open>
  \<open>_validate_path_args\<close>: an argument that starts with a slash is rejected; an
  argument that contains \<open>..\<close> is resolved against the chroot and must stay inside it.
  Here the \<open>ValueError\<close> of \<open>resolve()\<close> on a NUL character is caught with the one of
  \<open>relative_to\<close>. The list it returns is the list it was given.
\<close>

fun validate_path_args :: "string list \<Rightarrow> path \<Rightarrow> error + unit" where
  "validate_path_args [] chroot = Inr ()"
| "validate_path_args (arg_str # args) chroot =
    (if arg_str \<noteq> [] \<and> hd arg_str = CHR ''/'' then Inl PATH_ESCAPE
     else if contains ''..'' arg_str
             \<and> (CHR 0x00 \<in> set arg_str
                  \<or> \<not> prefix (resolve chroot) (resolve (pjoin chroot arg_str)))
       then Inl PATH_ESCAPE
     else validate_path_args args chroot)"

text \<open>\<open>_clamp_timeout\<close>.\<close>

definition clamp_timeout :: "valves \<Rightarrow> int \<Rightarrow> int" where
  "clamp_timeout v timeout = max 1 (min timeout (exec_timeout_max v))"

text \<open>What \<open>_exec_command\<close> returns: \<open>success\<close>, \<open>stdout\<close>, \<open>stderr\<close>, \<open>returncode\<close>.\<close>

type_synonym exec_result = "bool \<times> string \<times> string \<times> int"

text \<open>\<open>_exec_command\<close>.\<close>

definition exec_command ::
  "host \<Rightarrow> string \<Rightarrow> string list \<Rightarrow> path \<Rightarrow> int \<Rightarrow> filesystem \<Rightarrow> (error + exec_result) \<times> filesystem" where
  "exec_command h cmd args cwd timeout fs =
    (case run_process h (cmd # args) cwd (Some timeout) fs of
       (Completed returncode out err, fs') \<Rightarrow> (Inr (returncode = 0, out, err, returncode), fs')
     | (TimeoutExpired, fs') \<Rightarrow> (Inl TIMEOUT, fs')
     | (ProgramNotFound, fs') \<Rightarrow> (Inl COMMAND_NOT_FOUND, fs')
     | (OtherFailure, fs') \<Rightarrow> (Inl EXEC_ERROR, fs'))"

text \<open>
  \<open>subprocess.run(cmd, cwd=..., capture_output=True)\<close> as \<open>_init_git_repo\<close> and
  \<open>_git_commit\<close> call it: the exit code is ignored, an exception is not caught.
\<close>

definition subprocess_run :: "host \<Rightarrow> string list \<Rightarrow> path \<Rightarrow> filesystem \<Rightarrow> (error + unit) \<times> filesystem" where
  "subprocess_run h cmd cwd fs =
    (case run_process h cmd cwd None fs of
       (Completed returncode out err, fs') \<Rightarrow> (Inr (), fs')
     | (_, fs') \<Rightarrow> (Inl PyException, fs'))"

text \<open>\<open>_init_git_repo\<close>.\<close>

definition init_git_repo :: "host \<Rightarrow> filesystem \<Rightarrow> path \<Rightarrow> (error + unit) \<times> filesystem" where
  "init_git_repo h fs repo_path =
    (if \<not> exists fs (repo_path @ [''.git'']) then
       (case ensure_dir fs repo_path of
          None \<Rightarrow> (Inl PyException, fs)
        | Some fs1 \<Rightarrow>
           (case subprocess_run h [''git'', ''init''] repo_path fs1 of
              (Inl e, fs2) \<Rightarrow> (Inl e, fs2)
            | (Inr _, fs2) \<Rightarrow>
               (case subprocess_run h
                       [''git'', ''config'', ''user.email'', ''storage@openwebui.local'']
                       repo_path fs2 of
                  (Inl e, fs3) \<Rightarrow> (Inl e, fs3)
                | (Inr _, fs3) \<Rightarrow>
                    subprocess_run h [''git'', ''config'', ''user.name'', ''User Storage'']
                      repo_path fs3)))
     else (Inr (), fs))"

text \<open>\<open>_git_commit\<close>.\<close>

definition git_commit :: "host \<Rightarrow> filesystem \<Rightarrow> path \<Rightarrow> string \<Rightarrow> (error + unit) \<times> filesystem" where
  "git_commit h fs repo_path message =
    (case subprocess_run h [''git'', ''add'', ''-A''] repo_path fs of
       (Inl e, fs1) \<Rightarrow> (Inl e, fs1)
     | (Inr _, fs1) \<Rightarrow>
         subprocess_run h [''git'', ''commit'', ''-m'', message, ''--allow-empty-message'']
           repo_path fs1)"

text \<open>
  The validation and execution steps that the five \<open>exec\<close> operations share, for a
  whitelist, the \<open>args\<close> handed to \<open>_validate_command\<close> and the read-only flag.
\<close>

definition validate_and_exec ::
  "host \<Rightarrow> valves \<Rightarrow> string list \<Rightarrow> string list option \<Rightarrow> bool \<Rightarrow> filesystem \<Rightarrow> path
     \<Rightarrow> string \<Rightarrow> string list \<Rightarrow> int \<Rightarrow> (error + exec_result) \<times> filesystem" where
  "validate_and_exec h v whitelist cmd_args readonly fs chroot cmd args timeout =
    (case validate_command cmd whitelist cmd_args of
       Inl e \<Rightarrow> (Inl e, fs)
     | Inr _ \<Rightarrow>
        (case validate_args args readonly of
           Inl e \<Rightarrow> (Inl e, fs)
         | Inr _ \<Rightarrow>
            (case validate_path_args args chroot of
               Inl e \<Rightarrow> (Inl e, fs)
             | Inr _ \<Rightarrow> exec_command h cmd args chroot (clamp_timeout v timeout) fs)))"

text \<open>
  \<open>store_uploads_exec\<close>. Without an upload directory it answers
  \<open>{success: false, message}\<close> itself: \<open>NO_UPLOADS\<close>.
\<close>

definition store_uploads_exec ::
  "host \<Rightarrow> valves \<Rightarrow> filesystem \<Rightarrow> path \<Rightarrow> string \<Rightarrow> string \<Rightarrow> string list \<Rightarrow> int
     \<Rightarrow> (error + exec_result) \<times> filesystem" where
  "store_uploads_exec h v fs user_root conv_id cmd args timeout =
    (let chroot = pjoin (user_root @ [''Uploads'']) conv_id in
     if \<not> exists fs chroot then (Inl NO_UPLOADS, fs)
     else validate_and_exec h v WHITELIST_READONLY None True fs chroot cmd args timeout)"

text \<open>\<open>store_storage_exec\<close>.\<close>

definition store_storage_exec ::
  "host \<Rightarrow> valves \<Rightarrow> filesystem \<Rightarrow> path \<Rightarrow> string \<Rightarrow> string list \<Rightarrow> int
     \<Rightarrow> (error + exec_result) \<times> filesystem" where
  "store_storage_exec h v fs user_root cmd args timeout =
    (let chroot = user_root @ [''Storage'', ''data''] in
     case ensure_dir fs chroot of
       None \<Rightarrow> (Inl PyException, fs)
     | Some fs1 \<Rightarrow>
         validate_and_exec h v WHITELIST_READWRITE (Some args) False fs1 chroot cmd args timeout)"

text \<open>\<open>store_documents_exec\<close>.\<close>

definition store_documents_exec ::
  "host \<Rightarrow> valves \<Rightarrow> filesystem \<Rightarrow> path \<Rightarrow> string \<Rightarrow> string list \<Rightarrow> int
     \<Rightarrow> (error + exec_result) \<times> filesystem" where
  "store_documents_exec h v fs user_root cmd args timeout =
    (let chroot = user_root @ [''Documents'', ''data''] in
     case init_git_repo h fs chroot of
       (Inl e, fs1) \<Rightarrow> (Inl e, fs1)
     | (Inr _, fs1) \<Rightarrow>
         validate_and_exec h v WHITELIST_READWRITE (Some args) False fs1 chroot cmd args timeout)"

text \<open>
  \<open>store_storage_edit_exec\<close> and \<open>store_documents_edit_exec\<close>, which differ in the name
  of the zone only.
\<close>

definition edit_exec ::
  "host \<Rightarrow> valves \<Rightarrow> string \<Rightarrow> filesystem \<Rightarrow> path \<Rightarrow> string \<Rightarrow> string \<Rightarrow> string list \<Rightarrow> int
     \<Rightarrow> (error + exec_result) \<times> filesystem" where
  "edit_exec h v zone fs user_root conv_id cmd args timeout =
    (let chroot = pjoin (user_root @ [zone, ''editzone'']) conv_id in
     if \<not> exists fs chroot then (Inl ZONE_FORBIDDEN, fs)
     else validate_and_exec h v WHITELIST_READWRITE (Some args) False fs chroot cmd args timeout)"

definition store_storage_edit_exec ::
  "host \<Rightarrow> valves \<Rightarrow> filesystem \<Rightarrow> path \<Rightarrow> string \<Rightarrow> string \<Rightarrow> string list \<Rightarrow> int
     \<Rightarrow> (error + exec_result) \<times> filesystem" where
  "store_storage_edit_exec h v = edit_exec h v ''Storage''"

definition store_documents_edit_exec ::
  "host \<Rightarrow> valves \<Rightarrow> filesystem \<Rightarrow> path \<Rightarrow> string \<Rightarrow> string \<Rightarrow> string list \<Rightarrow> int
     \<Rightarrow> (error + exec_result) \<times> filesystem" where
  "store_documents_edit_exec h v = edit_exec h v ''Documents''"

text \<open>\<open>len(content.encode('utf-8'))\<close> for code points below 256.\<close>

definition utf8_length :: "string \<Rightarrow> int" where
  "utf8_length s = (\<Sum>c\<leftarrow>s. if (of_char c :: nat) < 128 then 1 else 2)"

text \<open>\<open>_validate_content_size\<close>.\<close>

definition validate_content_size :: "valves \<Rightarrow> string \<Rightarrow> error + unit" where
  "validate_content_size v content =
    (let max_bytes = max_file_size_mb v * 1024 * 1024 in
     if utf8_length content > max_bytes then Inl QUOTA_EXCEEDED else Inr ())"

text \<open>Writing through \<open>target.open("a")\<close>: the text is added at the end of the file.\<close>

definition append_text :: "filesystem \<Rightarrow> path \<Rightarrow> string \<Rightarrow> filesystem option" where
  "append_text fs p s =
    (case lookup fs p of
       Some (File c) \<Rightarrow> write_text fs p (c @ s)
     | Some Dir \<Rightarrow> None
     | None \<Rightarrow> write_text fs p s)"

text \<open>
  The steps that the four \<open>write\<close> operations share after the size check: resolve
  the target, create its parent, write or append. The answer tells whether the target
  was new, which \<open>store_documents_write\<close> reads as \<open>is_new\<close>.
\<close>

definition write_target ::
  "filesystem \<Rightarrow> path \<Rightarrow> string \<Rightarrow> string \<Rightarrow> bool \<Rightarrow> (error + bool) \<times> filesystem" where
  "write_target fs chroot path content append_mode =
    (case resolve_chroot_path chroot path of
       Inl e \<Rightarrow> (Inl e, fs)
     | Inr target \<Rightarrow>
        (case ensure_dir fs (butlast target) of
           None \<Rightarrow> (Inl PyException, fs)
         | Some fs1 \<Rightarrow>
            (let is_new = \<not> exists fs1 target in
             case (if append_mode \<and> exists fs1 target then append_text fs1 target content
                   else write_text fs1 target content) of
               None \<Rightarrow> (Inl PyException, fs1)
             | Some fs2 \<Rightarrow> (Inr is_new, fs2))))"

text \<open>\<open>store_storage_write\<close>; it answers the number of characters written.\<close>

definition store_storage_write ::
  "valves \<Rightarrow> filesystem \<Rightarrow> path \<Rightarrow> string \<Rightarrow> string \<Rightarrow> bool \<Rightarrow> (error + nat) \<times> filesystem" where
  "store_storage_write v fs user_root path content append_mode =
    (let chroot = user_root @ [''Storage'', ''data''] in
     case ensure_dir fs chroot of
       None \<Rightarrow> (Inl PyException, fs)
     | Some fs1 \<Rightarrow>
        (case validate_content_size v content of
           Inl e \<Rightarrow> (Inl e, fs1)
         | Inr _ \<Rightarrow>
            (case write_target fs1 chroot path content append_mode of
               (Inl e, fs2) \<Rightarrow> (Inl e, fs2)
             | (Inr _, fs2) \<Rightarrow> (Inr (length content), fs2))))"

text \<open>\<open>store_documents_write\<close>, with the commit message it makes up for an empty one.\<close>

definition store_documents_write ::
  "host \<Rightarrow> valves \<Rightarrow> filesystem \<Rightarrow> path \<Rightarrow> string \<Rightarrow> string \<Rightarrow> bool \<Rightarrow> string
     \<Rightarrow> (error + unit) \<times> filesystem" where
  "store_documents_write h v fs user_root path content append_mode message =
    (let chroot = user_root @ [''Documents'', ''data''] in
     case init_git_repo h fs chroot of
       (Inl e, fs1) \<Rightarrow> (Inl e, fs1)
     | (Inr _, fs1) \<Rightarrow>
        (case validate_content_size v content of
           Inl e \<Rightarrow> (Inl e, fs1)
         | Inr _ \<Rightarrow>
            (case write_target fs1 chroot path content append_mode of
               (Inl e, fs2) \<Rightarrow> (Inl e, fs2)
             | (Inr is_new, fs2) \<Rightarrow>
                (let action = (if is_new then ''Created''
                               else if append_mode then ''Appended to'' else ''Modified'');
                     message = (if message = [] then action @ '' '' @ path else message)
                 in git_commit h fs2 chroot message))))"

text \<open>
  \<open>store_storage_edit_write\<close> and \<open>store_documents_edit_write\<close>, which differ in the
  name of the zone only.
\<close>

definition edit_write ::
  "valves \<Rightarrow> string \<Rightarrow> filesystem \<Rightarrow> path \<Rightarrow> string \<Rightarrow> string \<Rightarrow> string \<Rightarrow> bool
     \<Rightarrow> (error + unit) \<times> filesystem" where
  "edit_write v zone fs user_root conv_id path content append_mode =
    (let chroot = pjoin (user_root @ [zone, ''editzone'']) conv_id in
     if \<not> exists fs chroot then (Inl ZONE_FORBIDDEN, fs)
     else (case validate_content_size v content of
             Inl e \<Rightarrow> (Inl e, fs)
           | Inr _ \<Rightarrow>
              (case write_target fs chroot path content append_mode of
                 (Inl e, fs1) \<Rightarrow> (Inl e, fs1)
               | (Inr _, fs1) \<Rightarrow> (Inr (), fs1))))"

definition store_storage_edit_write ::
  "valves \<Rightarrow> filesystem \<Rightarrow> path \<Rightarrow> string \<Rightarrow> string \<Rightarrow> string \<Rightarrow> bool \<Rightarrow> (error + unit) \<times> filesystem" where
  "store_storage_edit_write v = edit_write v ''Storage''"

definition store_documents_edit_write ::
  "valves \<Rightarrow> filesystem \<Rightarrow> path \<Rightarrow> string \<Rightarrow> string \<Rightarrow> string \<Rightarrow> bool \<Rightarrow> (error + unit) \<times> filesystem" where
  "store_documents_edit_write v = edit_write v ''Documents''"

text \<open>Sample settings: files of at most 1 MB, locks of at most 24 hours.\<close>

definition sample_valves :: valves where
  "sample_valves = \<lparr> max_file_size_mb = 1, lock_max_age_hours = 24, exec_timeout_max = 300 \<rparr>"

section \<open>Maintenance\<close>

text \<open>
  Directory walks. \<open>rglob\<close> gives the paths below a directory whose name matches,
  \<open>iterdir\<close> the entries of a directory; both are taken as they stand when the loop
  starts, in the order of the file-system list (the operating system fixes no order).
  \<open>iterdir\<close> fails on a path that is not a directory.
\<close>

definition rglob :: "filesystem \<Rightarrow> path \<Rightarrow> (string \<Rightarrow> bool) \<Rightarrow> path list" where
  "rglob fs dir matches =
    (if is_dir fs dir
     then filter (\<lambda>q. strict_prefix dir q \<and> matches (last q)) (remdups (map fst fs))
     else [])"

definition iterdir :: "filesystem \<Rightarrow> path \<Rightarrow> path list option" where
  "iterdir fs dir =
    (if is_dir fs dir
     then Some (filter (\<lambda>q. q \<noteq> [] \<and> butlast q = dir) (remdups (map fst fs)))
     else None)"

text \<open>The pattern \<open>*.lock\<close>: the name ends with \<open>.lock\<close>.\<close>

definition ends_with :: "string \<Rightarrow> string \<Rightarrow> bool" where
  "ends_with s ending = (length ending \<le> length s \<and> drop (length s - length ending) s = ending)"

text \<open>\<open>s.replace("Z", "+00:00")\<close>.\<close>

definition replace_Z :: "string \<Rightarrow> string" where
  "replace_Z s = concat (map (\<lambda>c. if c = CHR ''Z'' then ''+00:00'' else [c]) s)"

text \<open>\<open>d.get(k, default)\<close>.\<close>

definition dict_get_default :: "(string \<times> json) list \<Rightarrow> string \<Rightarrow> json \<Rightarrow> json" where
  "dict_get_default d k dflt = (case map_of d k of None \<Rightarrow> dflt | Some v \<Rightarrow> v)"

text \<open>The report of \<open>store_maintenance\<close>.\<close>

record cleaned =
  expired_locks :: "string list"
  corrupted_locks :: "string list"
  orphan_editzones :: "string list"

text \<open>A \<open>for\<close> loop whose body may raise: the exception ends the loop.\<close>

fun for_each :: "('a \<Rightarrow> 's \<Rightarrow> (error + unit) \<times> 's) \<Rightarrow> 'a list \<Rightarrow> 's \<Rightarrow> (error + unit) \<times> 's" where
  "for_each body [] s = (Inr (), s)"
| "for_each body (x # xs) s =
    (case body x s of
       (Inl e, s') \<Rightarrow> (Inl e, s')
     | (Inr _, s') \<Rightarrow> for_each body xs s')"

text \<open>
  The body of the first loop of \<open>store_maintenance\<close>, for one lock file. The age of a
  lock is compared in microseconds, where the source compares hours as floats.
  \<open>JSONDecodeError\<close> marks a corrupted lock; \<open>ValueError\<close> and \<open>TypeError\<close> (a date
  that cannot be read, a \<open>conv_id\<close> that is not a string) are passed over; a decoded
  value without \<open>get\<close>, a \<open>locked_at\<close> without \<open>replace\<close> and a lock path that cannot be
  read raise another exception.
\<close>

definition clean_lock ::
  "host \<Rightarrow> valves \<Rightarrow> int \<Rightarrow> string \<Rightarrow> path \<Rightarrow> path \<Rightarrow> path \<Rightarrow> filesystem \<times> cleaned
     \<Rightarrow> (error + unit) \<times> (filesystem \<times> cleaned)" where
  "clean_lock h v now zone_name locks_dir editzone_dir lock_file st =
    (let fs = fst st; report = snd st;
         rel_path = join_with ''/'' (drop (length locks_dir) lock_file)
     in case read_text fs lock_file of
          None \<Rightarrow> (Inl PyException, st)
        | Some text \<Rightarrow>
           (case json_loads h text of
              None \<Rightarrow>
                (Inr (), (rm_with_empty_parents fs lock_file locks_dir,
                          report\<lparr>corrupted_locks :=
                                   corrupted_locks report @ [zone_name @ ''/'' @ rel_path]\<rparr>))
            | Some (JObject lock_data) \<Rightarrow>
               (let locked_at_str = dict_get_default lock_data ''locked_at'' (JString [])
                in if \<not> truthy locked_at_str then (Inr (), st)
                   else (case locked_at_str of
                           JString s \<Rightarrow>
                            (case fromisoformat h (replace_Z s) of
                               None \<Rightarrow> (Inr (), st)
                             | Some locked_at \<Rightarrow>
                                if now - locked_at > lock_max_age_hours v * 3600000000 then
                                  (let path_str = take (length rel_path - 5) rel_path;
                                       conv_id = dict_get_default lock_data ''conv_id'' (JString []);
                                       expire = (\<lambda>fs1.
                                         (Inr (), (rm_with_empty_parents fs1 lock_file locks_dir,
                                           report\<lparr>expired_locks :=
                                             expired_locks report @ [zone_name @ ''/'' @ path_str]\<rparr>)))
                                   in if \<not> truthy conv_id then expire fs
                                      else (case conv_id of
                                              JString c \<Rightarrow>
                                               (let edit_path = pjoin (pjoin editzone_dir c) path_str
                                                in if exists fs edit_path
                                                   then expire (rm_with_empty_parents fs edit_path
                                                                  editzone_dir)
                                                   else expire fs)
                                            | _ \<Rightarrow> (Inr (), st)))
                                else (Inr (), st))
                         | _ \<Rightarrow> (Inl PyException, st)))
            | Some _ \<Rightarrow> (Inl PyException, st)))"

text \<open>The body of the second loop, for one entry below the directory of a conversation.\<close>

definition clean_orphan ::
  "string \<Rightarrow> path \<Rightarrow> path \<Rightarrow> path \<Rightarrow> path \<Rightarrow> filesystem \<times> cleaned
     \<Rightarrow> (error + unit) \<times> (filesystem \<times> cleaned)" where
  "clean_orphan zone_name locks_dir editzone_dir conv_dir item st =
    (let fs = fst st; report = snd st in
     if is_file fs item then
       (let rel_path = join_with ''/'' (drop (length conv_dir) item);
            lock_path = pjoin locks_dir (rel_path @ ''.lock'')
        in if \<not> exists fs lock_path
           then (Inr (), (rm_with_empty_parents fs item editzone_dir,
                          report\<lparr>orphan_editzones := orphan_editzones report @
                            [zone_name @ ''/editzone/'' @ last conv_dir @ ''/'' @ rel_path]\<rparr>))
           else (Inr (), st))
     else (Inr (), st))"

definition clean_conversation ::
  "string \<Rightarrow> path \<Rightarrow> path \<Rightarrow> path \<Rightarrow> filesystem \<times> cleaned
     \<Rightarrow> (error + unit) \<times> (filesystem \<times> cleaned)" where
  "clean_conversation zone_name locks_dir editzone_dir conv_dir st =
    (if is_dir (fst st) conv_dir
     then for_each (clean_orphan zone_name locks_dir editzone_dir conv_dir)
            (rglob (fst st) conv_dir (\<lambda>name. True)) st
     else (Inr (), st))"

text \<open>The body of the loop over the two zones.\<close>

definition maintain_zone ::
  "host \<Rightarrow> valves \<Rightarrow> int \<Rightarrow> path \<Rightarrow> string \<Rightarrow> filesystem \<times> cleaned
     \<Rightarrow> (error + unit) \<times> (filesystem \<times> cleaned)" where
  "maintain_zone h v now user_root zone_name st =
    (let zone_root = user_root @ [zone_name];
         locks_dir = zone_root @ [''locks''];
         editzone_dir = zone_root @ [''editzone''];
         r1 = (if exists (fst st) locks_dir
               then for_each (clean_lock h v now zone_name locks_dir editzone_dir)
                      (rglob (fst st) locks_dir (\<lambda>name. ends_with name ''.lock'')) st
               else (Inr (), st))
     in case r1 of
          (Inl e, st1) \<Rightarrow> (Inl e, st1)
        | (Inr _, st1) \<Rightarrow>
            if exists (fst st1) editzone_dir then
              (case iterdir (fst st1) editzone_dir of
                 None \<Rightarrow> (Inl PyException, st1)
               | Some conv_dirs \<Rightarrow>
                   for_each (clean_conversation zone_name locks_dir editzone_dir) conv_dirs st1)
            else (Inr (), st1))"

text \<open>
  \<open>store_maintenance\<close> at the instant \<open>now\<close>: the report, or the plain failure that
  the operation makes of an exception, and the file system as the run left it.
\<close>

definition store_maintenance ::
  "host \<Rightarrow> valves \<Rightarrow> int \<Rightarrow> filesystem \<Rightarrow> path \<Rightarrow> (error + cleaned) \<times> filesystem" where
  "store_maintenance h v now fs user_root =
    (case for_each (maintain_zone h v now user_root) [''Storage'', ''Documents'']
            (fs, \<lparr>expired_locks = [], corrupted_locks = [], orphan_editzones = []\<rparr>) of
       (Inl e, st) \<Rightarrow> (Inl PyException, fst st)
     | (Inr _, st) \<Rightarrow> (Inr (snd st), fst st))"

text \<open>
  The record that \<open>_create_lock\<close> writes when the conversation \<open>c1\<close> opens the directory
  \<open>proj\<close> at the epoch, its text, and the sample host taught to encode and decode it.
\<close>

definition sample_dir_lock_data :: "(string \<times> json) list" where
  "sample_dir_lock_data =
     [(''conv_id'', JString ''c1''), (''user_id'', JString ''u1''),
      (''locked_at'', JString ''1970-01-01T00:00:00+00:00''), (''path'', JString ''proj'')]"

definition sample_dir_lock_text :: string where
  "sample_dir_lock_text =
     ''{'' @ [CHR 0x0A] @
     ''  \"conv_id\": \"c1\",'' @ [CHR 0x0A] @
     ''  \"user_id\": \"u1\",'' @ [CHR 0x0A] @
     ''  \"locked_at\": \"1970-01-01T00:00:00+00:00\",'' @ [CHR 0x0A] @
     ''  \"path\": \"proj\"'' @ [CHR 0x0A] @
     ''}''"

definition sample_host_dir :: host where
  "sample_host_dir =
     sample_host
       \<lparr>json_loads := (\<lambda>s. if s = sample_dir_lock_text then Some (JObject sample_dir_lock_data)
                            else json_loads sample_host s),
        json_dumps := (\<lambda>j. if j = JObject sample_dir_lock_data then sample_dir_lock_text
                            else json_dumps sample_host j)\<rparr>"

section \<open>Theorems\<close>

text \<open>
  C8. A command of the global blacklist is rejected with \<open>COMMAND_FORBIDDEN\<close> whatever
  whitelist and whatever arguments the caller supplies: the blacklist test comes first
  and does not look at the whitelist.
\<close>

theorem blacklist_always_forbidden:
  "cmd \<in> set BLACKLIST_COMMANDS \<Longrightarrow> validate_command cmd whitelist args = Inl COMMAND_FORBIDDEN"
  by (simp add: validate_command_def)

theorem blacklist_always_forbidden_witness:
  "''bash'' \<in> set BLACKLIST_COMMANDS
   \<and> validate_command ''bash'' WHITELIST_READWRITE (Some [''-c'', ''ls'']) = Inl COMMAND_FORBIDDEN
   \<and> validate_command ''bash'' WHITELIST_READONLY None = Inl COMMAND_FORBIDDEN"
proof -
  have h: "''bash'' \<in> set BLACKLIST_COMMANDS"
    by (simp add: BLACKLIST_COMMANDS_def)
  show ?thesis
    using h blacklist_always_forbidden [OF h, of WHITELIST_READWRITE "Some [''-c'', ''ls'']"]
      blacklist_always_forbidden [OF h, of WHITELIST_READONLY None]
    by simp
qed

subsection \<open>Argument validation\<close>









subsection \<open>Path resolution\<close>

lemma split_on_nonempty [simp]: "split_on sep s \<noteq> []"
  by (induction s) (auto split: list.splits)

lemma split_on_no_sep: "c \<in> set (split_on sep s) \<Longrightarrow> sep \<notin> set c"
  by (induction s arbitrary: c) (auto split: list.splits if_splits)

lemma split_on_no_sep_Cons: "sep \<notin> set w \<Longrightarrow> split_on sep (w @ sep # s) = w # split_on sep s"
  by (induction w) (auto split: list.splits)

lemma split_on_no_sep_id: "sep \<notin> set w \<Longrightarrow> split_on sep w = [w]"
  by (induction w) (auto split: list.splits)

lemma split_join:
  "ps \<noteq> [] \<Longrightarrow> \<forall>c \<in> set ps. sep \<notin> set c \<Longrightarrow> split_on sep (join_with [sep] ps) = ps"
proof (induction "[sep]" ps rule: join_with.induct)
  case 1
  then show ?case by simp
next
  case (2 p)
  then show ?case by (simp add: split_on_no_sep_id)
next
  case (3 p q ps)
  then show ?case by (simp add: split_on_no_sep_Cons)
qed

lemma path_parts_join: "clean ps \<Longrightarrow> path_parts (join_with ''/'' ps) = ps"
proof (cases ps)
  case Nil
  then show ?thesis by (simp add: path_parts_def)
next
  case (Cons a list)
  assume "clean ps"
  then have "split_on (CHR ''/'') (join_with ''/'' ps) = ps"
    using Cons by (intro split_join) (auto simp: clean_def)
  moreover have "filter (\<lambda>c. c \<noteq> [] \<and> c \<noteq> ''.'') ps = ps"
    using \<open>clean ps\<close> by (auto simp: clean_def intro: filter_True)
  ultimately show ?thesis by (simp add: path_parts_def)
qed

lemma validate_parts_subset:
  "validate_parts st segs = Inr st' \<Longrightarrow>
   set st' \<subseteq> set st \<union> {c \<in> set segs. c \<noteq> [] \<and> c \<noteq> ''.'' \<and> c \<noteq> ''..''}"
proof (induction st segs rule: validate_parts.induct)
  case (1 parts)
  then show ?case by simp
next
  case (2 parts part rest)
  show ?case
  proof (cases "part = ''..''")
    case True
    with 2(4) have ne: "parts \<noteq> []" and r: "validate_parts (butlast parts) rest = Inr st'"
      by (simp_all split: if_splits)
    from 2(1)[OF True ne r] have "set st' \<subseteq> set (butlast parts) \<union> {c \<in> set rest. c \<noteq> [] \<and> c \<noteq> ''.'' \<and> c \<noteq> ''..''}" .
    moreover have "set (butlast parts) \<subseteq> set parts" by (auto dest: in_set_butlastD)
    ultimately show ?thesis by auto
  next
    case False
    show ?thesis
    proof (cases "part \<noteq> [] \<and> part \<noteq> ''.''")
      case True
      with False 2(4) have r: "validate_parts (parts @ [part]) rest = Inr st'" by simp
      from 2(2)[OF False True r] show ?thesis using False True by auto
    next
      case F2: False
      with False 2(4) have r: "validate_parts parts rest = Inr st'" by auto
      from 2(3)[OF False F2 r] show ?thesis by auto
    qed
  qed
qed

lemma validate_parts_clean:
  assumes "validate_parts [] segs = Inr st'" and "\<forall>c \<in> set segs. CHR ''/'' \<notin> set c"
  shows "clean st'"
  using validate_parts_subset[OF assms(1)] assms(2) unfolding clean_def by auto

lemma validate_parts_resolve:
  "validate_parts st segs = Inr st' \<Longrightarrow>
   foldl resolve_step (b @ st) (filter (\<lambda>c. c \<noteq> [] \<and> c \<noteq> ''.'') segs) = b @ st'"
proof (induction st segs rule: validate_parts.induct)
  case (1 parts)
  then show ?case by simp
next
  case (2 parts part rest)
  then show ?case
    by (auto simp: resolve_step_def butlast_append split: if_splits)
qed

lemma validate_parts_Inl: "(validate_parts st segs = Inl e) = (e = PATH_ESCAPE \<and> ascends_from (length st) segs)"
proof (induction st segs rule: validate_parts.induct)
  case (1 parts)
  then show ?case by simp
next
  case (2 parts part rest)
  then show ?case by (cases parts rule: rev_cases) auto
qed

lemma ascends_lstrip: "ascends_from d (split_on (CHR ''/'') (lstrip_slash p)) = ascends_from d (split_on (CHR ''/'') p)"
  unfolding lstrip_slash_def by (induction p) auto

lemma lstrip_no_slash: "\<not> (lstrip_slash p \<noteq> [] \<and> hd (lstrip_slash p) = CHR ''/'')"
  unfolding lstrip_slash_def using hd_dropWhile[of "\<lambda>c. c = CHR ''/''" p] by auto

lemma validate_relative_path_eq:
  "validate_relative_path p =
     (case validate_parts [] (split_on (CHR ''/'') (lstrip_slash p)) of
        Inl e \<Rightarrow> Inl e | Inr parts \<Rightarrow> Inr (join_with ''/'' parts))"
  using lstrip_no_slash[of p] by (auto simp: validate_relative_path_def Let_def)

lemma lstrip_slash_keeps:
  assumes "c \<in> set p" and "c \<noteq> CHR ''/''"
  shows "c \<in> set (lstrip_slash p)"
proof -
  have "set p = set (takeWhile (\<lambda>c. c = CHR ''/'') p) \<union> set (lstrip_slash p)"
    unfolding lstrip_slash_def by (metis set_append takeWhile_dropWhile_id)
  with assms show ?thesis by (auto dest: set_takeWhileD)
qed

lemma validate_relative_path_escape:
  "(validate_relative_path p = Inl e) = (e = PATH_ESCAPE \<and> ascends_above_root p)"
proof -
  have "(validate_relative_path p = Inl e) =
          (validate_parts [] (split_on (CHR ''/'') (lstrip_slash p)) = Inl e)"
    by (simp add: validate_relative_path_eq split: sum.splits)
  then show ?thesis
    by (simp add: validate_parts_Inl ascends_lstrip ascends_above_root_def)
qed

lemma resolve_chroot_path_contained:
  assumes ok: "validate_parts [] (split_on (CHR ''/'') (lstrip_slash p)) = Inr st"
    and nul: "CHR 0x00 \<notin> set p"
  shows "resolve_chroot_path base p = Inr (resolve base @ st)"
proof -
  have nul': "CHR 0x00 \<notin> set (lstrip_slash p)"
    using nul unfolding lstrip_slash_def by (auto dest: set_dropWhileD)
  have "pjoin base (lstrip_slash p) = base @ path_parts (lstrip_slash p)"
    using lstrip_no_slash[of p] by (auto simp: pjoin_def)
  then have "resolve (pjoin base (lstrip_slash p)) =
      foldl resolve_step (resolve base @ []) (path_parts (lstrip_slash p))"
    by (simp add: resolve_def)
  also have "\<dots> = resolve base @ st"
    unfolding path_parts_def by (rule validate_parts_resolve[OF ok])
  finally have "resolve (pjoin base (lstrip_slash p)) = resolve base @ st" .
  then show ?thesis using nul' by (simp add: resolve_chroot_path_def Let_def)
qed

text \<open>
  C1, as the specification states it, fails for \<open>_resolve_chroot_path\<close>: the path
  \<open>../data/x\<close> ascends above the root \<open>/srv/data\<close> at its first segment, and the
  resolver accepts it, because it only tests where the normalised target ends up.
\<close>

theorem resolve_chroot_path_reentry_counterexample:
  "ascends_above_root ''../data/x''
   \<and> resolve_chroot_path [''srv'', ''data''] ''../data/x'' = Inr [''srv'', ''data'', ''x'']"
  by (simp add: ascends_above_root_def resolve_chroot_path_def lstrip_slash_def pjoin_def
      path_parts_def resolve_def resolve_step_def)

text \<open>
  C1, amended. For every root and every path \<open>p\<close>: if \<open>p\<close> ascends above the root, the
  stack-based check \<open>_validate_relative_path\<close> fails with \<open>PATH_ESCAPE\<close>; if \<open>p\<close> never
  ascends above the root, \<open>_validate_relative_path\<close> returns the cleaned path \<open>q\<close> and,
  when \<open>p\<close> has no NUL character, \<open>_resolve_chroot_path\<close> succeeds and returns the
  resolved root extended by the components of \<open>q\<close>; \<open>_resolve_chroot_path\<close> fails with
  \<open>PATH_ESCAPE\<close> only on paths that ascend above the root; and every path it returns
  is the resolved root or a descendant of it.
\<close>

theorem path_resolution:
  "(ascends_above_root p \<longrightarrow> validate_relative_path p = Inl PATH_ESCAPE)
   \<and> (\<not> ascends_above_root p \<longrightarrow>
        (\<exists>q. validate_relative_path p = Inr q
           \<and> (CHR 0x00 \<notin> set p \<longrightarrow>
                resolve_chroot_path base p = Inr (resolve base @ path_parts q))))
   \<and> (resolve_chroot_path base p = Inl PATH_ESCAPE \<longrightarrow> ascends_above_root p)
   \<and> (\<forall>t. resolve_chroot_path base p = Inr t \<longrightarrow> prefix (resolve base) t)"
proof (intro conjI impI allI)
  assume "ascends_above_root p"
  then show "validate_relative_path p = Inl PATH_ESCAPE"
    by (simp add: validate_relative_path_escape)
next
  assume na: "\<not> ascends_above_root p"
  show "\<exists>q. validate_relative_path p = Inr q
           \<and> (CHR 0x00 \<notin> set p \<longrightarrow>
                resolve_chroot_path base p = Inr (resolve base @ path_parts q))"
  proof -
    obtain st where st: "validate_parts [] (split_on (CHR ''/'') (lstrip_slash p)) = Inr st"
      using na validate_parts_Inl[of "[]" "split_on (CHR ''/'') (lstrip_slash p)"]
      by (cases "validate_parts [] (split_on (CHR ''/'') (lstrip_slash p))")
         (auto simp: ascends_lstrip ascends_above_root_def)
    have "clean st"
      using st by (rule validate_parts_clean) (auto dest: split_on_no_sep)
    then have pp: "path_parts (join_with ''/'' st) = st" by (rule path_parts_join)
    have "validate_relative_path p = Inr (join_with ''/'' st)"
      using st by (simp add: validate_relative_path_eq)
    then show ?thesis
      using resolve_chroot_path_contained[OF st] pp by auto
  qed
next
  assume pe: "resolve_chroot_path base p = Inl PATH_ESCAPE"
  show "ascends_above_root p"
  proof (rule ccontr)
    assume na: "\<not> ascends_above_root p"
    then obtain st where st: "validate_parts [] (split_on (CHR ''/'') (lstrip_slash p)) = Inr st"
      using validate_parts_Inl[of "[]" "split_on (CHR ''/'') (lstrip_slash p)"]
      by (cases "validate_parts [] (split_on (CHR ''/'') (lstrip_slash p))")
         (auto simp: ascends_lstrip ascends_above_root_def)
    show False
    proof (cases "CHR 0x00 \<in> set p")
      case True
      then have "CHR 0x00 \<in> set (lstrip_slash p)"
        by (rule lstrip_slash_keeps) simp
      then have "resolve_chroot_path base p \<noteq> Inl PATH_ESCAPE"
        by (simp add: resolve_chroot_path_def Let_def)
      with pe show False by simp
    next
      case False
      from resolve_chroot_path_contained[OF st False] pe show False by simp
    qed
  qed
next
  fix t assume "resolve_chroot_path base p = Inr t"
  then show "prefix (resolve base) t"
    by (auto simp: resolve_chroot_path_def Let_def split: if_splits)
qed

theorem path_resolution_witness:
  "ascends_above_root ''a/../../b''
   \<and> validate_relative_path ''a/../../b'' = Inl PATH_ESCAPE
   \<and> resolve_chroot_path [''srv'', ''data''] ''a/../../b'' = Inl PATH_ESCAPE
   \<and> \<not> ascends_above_root ''a/../b'' \<and> CHR 0x00 \<notin> set ''a/../b''
   \<and> validate_relative_path ''a/../b'' = Inr ''b''
   \<and> resolve_chroot_path [''srv'', ''data''] ''a/../b'' = Inr [''srv'', ''data'', ''b'']
   \<and> prefix (resolve [''srv'', ''data'']) [''srv'', ''data'', ''b'']"
  using path_resolution [of "''a/../../b''" "[''srv'', ''data'']"]
    path_resolution [of "''a/../b''" "[''srv'', ''data'']"]
  by (simp add: ascends_above_root_def resolve_chroot_path_def lstrip_slash_def pjoin_def
      path_parts_def resolve_def resolve_step_def validate_relative_path_def)

subsection \<open>File system lookups\<close>






lemma map_of_map_const:
  "map_of (map (\<lambda>q. (q, v)) xs @ fs) q = (if q \<in> set xs then Some v else map_of fs q)"
  by (induction xs) auto

lemma lookup_ensure_dir:
  assumes "ensure_dir fs p = Some fs'"
  shows "lookup fs' q = (if prefix q p then Some Dir else lookup fs q)"
proof -
  from assms have nofile: "\<not> list_ex (is_file fs) (prefixes p)"
    and fs': "fs' = map (\<lambda>q. (q, Dir)) (filter (\<lambda>q. \<not> exists fs q) (prefixes p)) @ fs"
    by (auto simp: ensure_dir_def split: if_splits)
  show ?thesis
  proof (cases "q = []")
    case True
    then show ?thesis by (simp add: lookup_def)
  next
    case ne: False
    have "map_of fs' q =
        (if q \<in> set (filter (\<lambda>q. \<not> exists fs q) (prefixes p)) then Some Dir else map_of fs q)"
      unfolding fs' by (rule map_of_map_const)
    then have eq: "lookup fs' q =
        (if prefix q p \<and> \<not> exists fs q then Some Dir else lookup fs q)"
      using ne by (simp add: lookup_def in_set_prefixes)
    show ?thesis
    proof (cases "prefix q p")
      case False
      then show ?thesis using eq by simp
    next
      case True
      then have "\<not> is_file fs q"
        using nofile by (auto simp: list_ex_iff in_set_prefixes)
      then have "exists fs q \<Longrightarrow> lookup fs q = Some Dir"
        by (cases "lookup fs q"; cases "the (lookup fs q)")
           (auto simp: exists_def is_file_def)
      then show ?thesis using eq True by auto
    qed
  qed
qed








subsection \<open>The paths of an edit\<close>





lemma split_on_append_no_sep:
  "sep \<notin> set t \<Longrightarrow>
   split_on sep (s @ t) = butlast (split_on sep s) @ [last (split_on sep s) @ t]"
proof (induction s)
  case Nil
  then show ?case by (simp add: split_on_no_sep_id)
next
  case (Cons c s)
  then show ?case by (cases "split_on sep s") (auto split: list.splits)
qed

lemma path_parts_lock_nonempty: "path_parts (s @ ''.lock'') \<noteq> []"
proof -
  have "split_on (CHR ''/'') (s @ ''.lock'') =
          butlast (split_on (CHR ''/'') s) @ [last (split_on (CHR ''/'') s) @ ''.lock'']"
    by (rule split_on_append_no_sep) simp
  then show ?thesis by (simp add: path_parts_def)
qed



subsection \<open>Frames of the operations\<close>











lemma read_text_exists: "read_text fs p = Some t \<Longrightarrow> exists fs p"
  by (auto simp: read_text_def exists_def split: option.splits)


text \<open>
  C6. When the lock record of a path decodes to an object whose \<open>conv_id\<close> is not the
  caller's conversation identifier, the lock check raises \<open>FILE_LOCKED\<close>, and the error
  carries the record's \<open>conv_id\<close> (the owner), its \<open>locked_at\<close> timestamp and its
  \<open>path\<close>; every \<open>edit_open\<close> that reaches the check, that is on a valid path whose data
  entry exists, fails with this error and leaves the file system as it was.
\<close>

theorem edit_open_locked_by_other:
  assumes "read_text fs lock_path = Some text"
    and "json_loads h text = Some (JObject lock_data)"
    and "dict_get lock_data ''conv_id'' \<noteq> JString conv_id"
  shows "check_lock h fs lock_path conv_id =
           Some (FILE_LOCKED (dict_get lock_data ''conv_id'') (dict_get lock_data ''locked_at'')
                   (dict_get lock_data ''path''))
    \<and> (\<forall>zone user_root user_id now p q.
          validate_relative_path p = Inr q
          \<and> exists fs (pjoin (user_root @ [zone, ''data'']) q)
          \<and> get_lock_path (user_root @ [zone]) q = lock_path
          \<longrightarrow> edit_open h zone fs user_root user_id conv_id now p =
                (Inl (FILE_LOCKED (dict_get lock_data ''conv_id'')
                        (dict_get lock_data ''locked_at'') (dict_get lock_data ''path'')), fs))"
proof -
  have ck: "check_lock h fs lock_path conv_id =
           Some (FILE_LOCKED (dict_get lock_data ''conv_id'') (dict_get lock_data ''locked_at'')
                   (dict_get lock_data ''path''))"
    using assms read_text_exists[OF assms(1)] by (simp add: check_lock_def)
  then show ?thesis
    by (auto simp: edit_open_def Let_def)
qed

theorem edit_open_locked_by_other_witness:
  "read_text (sample_fs_locked sample_lock_text)
        (get_lock_path ([''u''] @ [''Storage'']) ''proj/a.txt'') = Some sample_lock_text
   \<and> json_loads sample_host sample_lock_text = Some (JObject sample_lock_data)
   \<and> dict_get sample_lock_data ''conv_id'' \<noteq> JString ''c2''
   \<and> validate_relative_path ''proj/a.txt'' = Inr ''proj/a.txt''
   \<and> exists (sample_fs_locked sample_lock_text) (pjoin ([''u''] @ [''Storage'', ''data'']) ''proj/a.txt'')
   \<and> check_lock sample_host (sample_fs_locked sample_lock_text)
        (get_lock_path ([''u''] @ [''Storage'']) ''proj/a.txt'') ''c2''
      = Some (FILE_LOCKED (JString ''c1'') (JString ''1970-01-01T00:00:00+00:00'')
                (JString ''proj/a.txt''))
   \<and> edit_open sample_host ''Storage'' (sample_fs_locked sample_lock_text) [''u''] ''u2'' ''c2'' 5
        ''proj/a.txt''
      = (Inl (FILE_LOCKED (JString ''c1'') (JString ''1970-01-01T00:00:00+00:00'')
                (JString ''proj/a.txt'')), sample_fs_locked sample_lock_text)"
proof -
  have h1: "read_text (sample_fs_locked sample_lock_text)
        (get_lock_path ([''u''] @ [''Storage'']) ''proj/a.txt'') = Some sample_lock_text"
    by code_simp
  have h2: "json_loads sample_host sample_lock_text = Some (JObject sample_lock_data)"
    by (simp add: sample_host_def)
  have h3: "dict_get sample_lock_data ''conv_id'' \<noteq> JString ''c2''"
    by (simp add: dict_get_def sample_lock_data_def)
  have h4: "validate_relative_path ''proj/a.txt'' = Inr ''proj/a.txt''" by code_simp
  have h5: "exists (sample_fs_locked sample_lock_text)
              (pjoin ([''u''] @ [''Storage'', ''data'']) ''proj/a.txt'')"
    by code_simp
  have d: "dict_get sample_lock_data ''conv_id'' = JString ''c1''"
    "dict_get sample_lock_data ''locked_at'' = JString ''1970-01-01T00:00:00+00:00''"
    "dict_get sample_lock_data ''path'' = JString ''proj/a.txt''"
    by (simp_all add: dict_get_def sample_lock_data_def)
  from edit_open_locked_by_other [OF h1 h2 h3] h1 h2 h3 h4 h5
  show ?thesis unfolding d by blast
qed

















subsection \<open>Execution and writes\<close>

lemma rm_rf_root_command:
  "validate_command ''rm'' WHITELIST_READWRITE (Some [''-rf'', ''/'']) = Inr ()"
  "validate_command ''rm'' WHITELIST_READONLY None = Inl COMMAND_FORBIDDEN"
  by code_simp+

lemma rm_rf_root_args: "validate_args [''-rf'', ''/''] False = Inr ()"
  by code_simp

lemma rm_rf_root_path_args: "validate_path_args [''-rf'', ''/''] chroot = Inl PATH_ESCAPE"
  by simp

lemmas rm_rf_root_validation = rm_rf_root_command rm_rf_root_args rm_rf_root_path_args

lemma rm_rf_root_readwrite:
  "validate_and_exec h v WHITELIST_READWRITE (Some [''-rf'', ''/'']) False fs chroot
     ''rm'' [''-rf'', ''/''] timeout = (Inl PATH_ESCAPE, fs)"
  unfolding validate_and_exec_def rm_rf_root_validation by simp

lemma rm_rf_root_readonly:
  "validate_and_exec h v WHITELIST_READONLY None True fs chroot
     ''rm'' [''-rf'', ''/''] timeout = (Inl COMMAND_FORBIDDEN, fs)"
  unfolding validate_and_exec_def rm_rf_root_validation by simp

text \<open>
  C2, as the specification states it, fails: in the Storage zone the call is rejected
  with \<open>PATH_ESCAPE\<close>, the code that \<open>_validate_path_args\<close> gives to an argument with a
  leading slash, and not with \<open>ARGUMENT_FORBIDDEN\<close>; and for a user without
  directories the call has created \<open>Storage/data\<close> before it fails.
\<close>

theorem exec_rm_rf_root_counterexample:
  "store_storage_exec sample_host sample_valves sample_fs [''u''] ''rm'' [''-rf'', ''/''] 30
     = (Inl PATH_ESCAPE, sample_fs)
   \<and> store_storage_exec sample_host sample_valves [] [''u''] ''rm'' [''-rf'', ''/''] 30
     = (Inl PATH_ESCAPE,
        [([''u''], Dir), ([''u'', ''Storage''], Dir), ([''u'', ''Storage'', ''data''], Dir)])"
  by code_simp

text \<open>
  C2, amended. \<open>exec\<close> with the command \<open>rm\<close> and the arguments \<open>-rf\<close>, \<open>/\<close> runs the
  command in no zone. In Storage it fails with \<open>PATH_ESCAPE\<close> once the data directory
  is there; in Documents it fails with \<open>PATH_ESCAPE\<close> once the repository is
  initialised; in the two edit zones it fails with \<open>PATH_ESCAPE\<close> when the conversation
  has an edit zone and with \<open>ZONE_FORBIDDEN\<close> otherwise; in Uploads it fails with
  \<open>COMMAND_FORBIDDEN\<close> when the conversation has uploads and with a plain failure
  otherwise. The file system is left as the set-up before validation made it.
\<close>

theorem exec_rm_rf_root:
  "store_storage_exec h v fs user_root ''rm'' [''-rf'', ''/''] timeout =
     (case ensure_dir fs (user_root @ [''Storage'', ''data'']) of
        None \<Rightarrow> (Inl PyException, fs)
      | Some fs1 \<Rightarrow> (Inl PATH_ESCAPE, fs1))
   \<and> store_documents_exec h v fs user_root ''rm'' [''-rf'', ''/''] timeout =
     (case init_git_repo h fs (user_root @ [''Documents'', ''data'']) of
        (Inl e, fs1) \<Rightarrow> (Inl e, fs1)
      | (Inr u, fs1) \<Rightarrow> (Inl PATH_ESCAPE, fs1))
   \<and> store_storage_edit_exec h v fs user_root conv_id ''rm'' [''-rf'', ''/''] timeout =
     (if exists fs (pjoin (user_root @ [''Storage'', ''editzone'']) conv_id)
      then (Inl PATH_ESCAPE, fs) else (Inl ZONE_FORBIDDEN, fs))
   \<and> store_documents_edit_exec h v fs user_root conv_id ''rm'' [''-rf'', ''/''] timeout =
     (if exists fs (pjoin (user_root @ [''Documents'', ''editzone'']) conv_id)
      then (Inl PATH_ESCAPE, fs) else (Inl ZONE_FORBIDDEN, fs))
   \<and> store_uploads_exec h v fs user_root conv_id ''rm'' [''-rf'', ''/''] timeout =
     (if exists fs (pjoin (user_root @ [''Uploads'']) conv_id)
      then (Inl COMMAND_FORBIDDEN, fs) else (Inl NO_UPLOADS, fs))"
  by (simp add: store_storage_exec_def store_documents_exec_def store_storage_edit_exec_def
      store_documents_edit_exec_def store_uploads_exec_def edit_exec_def Let_def
      rm_rf_root_readwrite rm_rf_root_readonly split: option.splits prod.splits sum.splits)

theorem exec_rm_rf_root_witness:
  "store_storage_exec sample_host sample_valves (sample_fs_locked sample_lock_text) [''u'']
     ''rm'' [''-rf'', ''/''] 30 = (Inl PATH_ESCAPE, sample_fs_locked sample_lock_text)
   \<and> store_documents_exec sample_host sample_valves (sample_fs_locked sample_lock_text) [''u'']
     ''rm'' [''-rf'', ''/''] 30
     = (Inl PyException,
        [([''u'', ''Documents''], Dir), ([''u'', ''Documents'', ''data''], Dir)]
        @ sample_fs_locked sample_lock_text)
   \<and> store_storage_edit_exec sample_host sample_valves (sample_fs_locked sample_lock_text) [''u'']
     ''c1'' ''rm'' [''-rf'', ''/''] 30 = (Inl PATH_ESCAPE, sample_fs_locked sample_lock_text)
   \<and> store_documents_edit_exec sample_host sample_valves (sample_fs_locked sample_lock_text)
     [''u''] ''c1'' ''rm'' [''-rf'', ''/''] 30
     = (Inl ZONE_FORBIDDEN, sample_fs_locked sample_lock_text)
   \<and> store_uploads_exec sample_host sample_valves (sample_fs_locked sample_lock_text) [''u'']
     ''c1'' ''rm'' [''-rf'', ''/''] 30 = (Inl NO_UPLOADS, sample_fs_locked sample_lock_text)"
proof -
  have e1: "ensure_dir (sample_fs_locked sample_lock_text) ([''u''] @ [''Storage'', ''data''])
              = Some (sample_fs_locked sample_lock_text)"
    by code_simp
  have e2: "init_git_repo sample_host (sample_fs_locked sample_lock_text)
              ([''u''] @ [''Documents'', ''data''])
            = (Inl PyException,
               [([''u'', ''Documents''], Dir), ([''u'', ''Documents'', ''data''], Dir)]
               @ sample_fs_locked sample_lock_text)"
    by code_simp
  have e3: "exists (sample_fs_locked sample_lock_text)
              (pjoin ([''u''] @ [''Storage'', ''editzone'']) ''c1'')"
    by code_simp
  have e4: "\<not> exists (sample_fs_locked sample_lock_text)
              (pjoin ([''u''] @ [''Documents'', ''editzone'']) ''c1'')"
    by code_simp
  have e5: "\<not> exists (sample_fs_locked sample_lock_text) (pjoin ([''u''] @ [''Uploads'']) ''c1'')"
    by code_simp
  show ?thesis
    using exec_rm_rf_root [of sample_host sample_valves "sample_fs_locked sample_lock_text"
        "[''u'']" 30 "''c1''"]
      e3 e4 e5
    unfolding e1 e2 by simp
qed

lemma ensure_dir_read_text:
  assumes "ensure_dir fs p = Some fs'"
  shows "read_text fs' q = read_text fs q"
proof (cases "prefix q p")
  case False
  then show ?thesis using lookup_ensure_dir[OF assms, of q] by (simp add: read_text_def)
next
  case True
  from assms have "\<not> list_ex (is_file fs) (prefixes p)"
    by (auto simp: ensure_dir_def split: if_splits)
  with True have "\<not> is_file fs q" by (auto simp: list_ex_iff in_set_prefixes)
  then have "read_text fs q = None"
    by (auto simp: is_file_def read_text_def split: option.splits entry.splits)
  moreover have "read_text fs' q = None"
    using True lookup_ensure_dir[OF assms, of q] by (simp add: read_text_def)
  ultimately show ?thesis by simp
qed

text \<open>
  C7, as the specification states it, fails for the writes to an edit zone: without an
  edit zone for the conversation they fail with \<open>ZONE_FORBIDDEN\<close>, whatever the size
  of the content, because the zone test comes before the size test.
\<close>

theorem oversize_edit_write_counterexample:
  "utf8_length ''hello'' > max_file_size_mb (sample_valves\<lparr>max_file_size_mb := 0\<rparr>) * 1024 * 1024
   \<and> store_storage_edit_write (sample_valves\<lparr>max_file_size_mb := 0\<rparr>) sample_fs [''u''] ''c1''
        ''proj/a.txt'' ''hello'' False
      = (Inl ZONE_FORBIDDEN, sample_fs)"
  by code_simp

text \<open>
  C7, amended. When the content has more bytes in UTF-8 than the configured maximum:
  the write to Storage fails with \<open>QUOTA_EXCEEDED\<close> once the data directory is there,
  and every file holds the text it held before; the write to Documents fails with
  \<open>QUOTA_EXCEEDED\<close> once the repository is initialised; the writes to the edit zones
  fail with \<open>QUOTA_EXCEEDED\<close> when the conversation has an edit zone and with
  \<open>ZONE_FORBIDDEN\<close> otherwise, and leave the file system as it was.
\<close>

theorem oversize_write_rejected:
  assumes "utf8_length content > max_file_size_mb v * 1024 * 1024"
  shows "store_storage_write v fs user_root path content append_mode =
           (case ensure_dir fs (user_root @ [''Storage'', ''data'']) of
              None \<Rightarrow> (Inl PyException, fs)
            | Some fs1 \<Rightarrow> (Inl QUOTA_EXCEEDED, fs1))
    \<and> (\<forall>p. read_text (snd (store_storage_write v fs user_root path content append_mode)) p
              = read_text fs p)
    \<and> store_documents_write h v fs user_root path content append_mode message =
           (case init_git_repo h fs (user_root @ [''Documents'', ''data'']) of
              (Inl e, fs1) \<Rightarrow> (Inl e, fs1)
            | (Inr u, fs1) \<Rightarrow> (Inl QUOTA_EXCEEDED, fs1))
    \<and> store_storage_edit_write v fs user_root conv_id path content append_mode =
           (if exists fs (pjoin (user_root @ [''Storage'', ''editzone'']) conv_id)
            then (Inl QUOTA_EXCEEDED, fs) else (Inl ZONE_FORBIDDEN, fs))
    \<and> store_documents_edit_write v fs user_root conv_id path content append_mode =
           (if exists fs (pjoin (user_root @ [''Documents'', ''editzone'']) conv_id)
            then (Inl QUOTA_EXCEEDED, fs) else (Inl ZONE_FORBIDDEN, fs))"
proof -
  have q: "validate_content_size v content = Inl QUOTA_EXCEEDED"
    using assms by (simp add: validate_content_size_def)
  have s: "store_storage_write v fs user_root path content append_mode =
           (case ensure_dir fs (user_root @ [''Storage'', ''data'']) of
              None \<Rightarrow> (Inl PyException, fs)
            | Some fs1 \<Rightarrow> (Inl QUOTA_EXCEEDED, fs1))"
    by (simp add: store_storage_write_def q split: option.splits)
  have f: "read_text (snd (store_storage_write v fs user_root path content append_mode)) p
              = read_text fs p" for p
    unfolding s by (auto simp: ensure_dir_read_text split: option.splits)
  have d: "store_documents_write h v fs user_root path content append_mode message =
           (case init_git_repo h fs (user_root @ [''Documents'', ''data'']) of
              (Inl e, fs1) \<Rightarrow> (Inl e, fs1)
            | (Inr u, fs1) \<Rightarrow> (Inl QUOTA_EXCEEDED, fs1))"
    by (simp add: store_documents_write_def q split: prod.splits sum.splits)
  have e: "edit_write v zone fs user_root conv_id path content append_mode =
           (if exists fs (pjoin (user_root @ [zone, ''editzone'']) conv_id)
            then (Inl QUOTA_EXCEEDED, fs) else (Inl ZONE_FORBIDDEN, fs))" for zone
    by (simp add: edit_write_def q Let_def)
  show ?thesis
    using s f d e by (simp add: store_storage_edit_write_def store_documents_edit_write_def)
qed

theorem oversize_write_rejected_witness:
  "utf8_length ''hello'' > max_file_size_mb (sample_valves\<lparr>max_file_size_mb := 0\<rparr>) * 1024 * 1024
   \<and> store_storage_write (sample_valves\<lparr>max_file_size_mb := 0\<rparr>) sample_fs [''u'']
        ''proj/a.txt'' ''hello'' False
      = (Inl QUOTA_EXCEEDED, sample_fs)
   \<and> read_text (snd (store_storage_write (sample_valves\<lparr>max_file_size_mb := 0\<rparr>) sample_fs [''u'']
        ''proj/a.txt'' ''hello'' False)) [''u'', ''Storage'', ''data'', ''proj'', ''a.txt'']
      = Some ''hello''
   \<and> store_storage_edit_write (sample_valves\<lparr>max_file_size_mb := 0\<rparr>)
        (sample_fs_locked sample_lock_text) [''u''] ''c1'' ''proj/a.txt'' ''hello'' False
      = (Inl QUOTA_EXCEEDED, sample_fs_locked sample_lock_text)"
proof -
  have big: "utf8_length ''hello''
               > max_file_size_mb (sample_valves\<lparr>max_file_size_mb := 0\<rparr>) * 1024 * 1024"
    by code_simp
  have e1: "ensure_dir sample_fs ([''u''] @ [''Storage'', ''data'']) = Some sample_fs"
    by code_simp
  have e2: "exists (sample_fs_locked sample_lock_text)
              (pjoin ([''u''] @ [''Storage'', ''editzone'']) ''c1'')"
    by code_simp
  have r: "read_text sample_fs [''u'', ''Storage'', ''data'', ''proj'', ''a.txt''] = Some ''hello''"
    by code_simp
  from oversize_write_rejected [OF big, of sample_fs "[''u'']" "''proj/a.txt''" False]
  have a: "store_storage_write (sample_valves\<lparr>max_file_size_mb := 0\<rparr>) sample_fs [''u'']
        ''proj/a.txt'' ''hello'' False = (Inl QUOTA_EXCEEDED, sample_fs)"
    and b: "read_text (snd (store_storage_write (sample_valves\<lparr>max_file_size_mb := 0\<rparr>) sample_fs
        [''u''] ''proj/a.txt'' ''hello'' False)) [''u'', ''Storage'', ''data'', ''proj'', ''a.txt'']
      = Some ''hello''"
    unfolding e1 using r by simp_all
  from oversize_write_rejected [OF big, of "sample_fs_locked sample_lock_text" "[''u'']"
      "''proj/a.txt''" False _ _ "''c1''"] e2
  have c: "store_storage_edit_write (sample_valves\<lparr>max_file_size_mb := 0\<rparr>)
        (sample_fs_locked sample_lock_text) [''u''] ''c1'' ''proj/a.txt'' ''hello'' False
      = (Inl QUOTA_EXCEEDED, sample_fs_locked sample_lock_text)"
    by simp
  from big a b c show ?thesis by blast
qed

subsection \<open>Maintenance\<close>

text \<open>
  C4. The last part of the claim fails on the code for an edit of a directory. The
  conversation \<open>c1\<close> opens the directory \<open>proj\<close> at the epoch: \<open>edit_open\<close> writes the
  lock record \<open>locks/proj.lock\<close> and copies the directory to \<open>editzone/c1/proj\<close>. One
  second later, with a maximum lock age of 24 hours, \<open>store_maintenance\<close> removes the
  file \<open>proj/a.txt\<close> of the copy, although the lock record is there and fresh: the
  sweep for orphans looks for one lock record per file, \<open>locks/proj/a.txt.lock\<close>.
\<close>

theorem maintenance_removes_fresh_directory_edit:
  "fst (edit_open sample_host_dir ''Storage'' sample_fs [''u''] ''u1'' ''c1'' 0 ''proj'') = Inr ()
   \<and> read_text (snd (edit_open sample_host_dir ''Storage'' sample_fs [''u''] ''u1'' ''c1'' 0 ''proj''))
        [''u'', ''Storage'', ''locks'', ''proj.lock''] = Some sample_dir_lock_text
   \<and> json_loads sample_host_dir sample_dir_lock_text = Some (JObject sample_dir_lock_data)
   \<and> dict_get sample_dir_lock_data ''locked_at'' = JString ''1970-01-01T00:00:00+00:00''
   \<and> fromisoformat sample_host_dir ''1970-01-01T00:00:00+00:00'' = Some 0
   \<and> \<not> 1000000 - 0 > lock_max_age_hours sample_valves * 3600000000
   \<and> read_text (snd (edit_open sample_host_dir ''Storage'' sample_fs [''u''] ''u1'' ''c1'' 0 ''proj''))
        [''u'', ''Storage'', ''editzone'', ''c1'', ''proj'', ''a.txt''] = Some ''hello''
   \<and> lookup (snd (store_maintenance sample_host_dir sample_valves 1000000
                    (snd (edit_open sample_host_dir ''Storage'' sample_fs [''u''] ''u1'' ''c1'' 0
                            ''proj''))
                    [''u'']))
        [''u'', ''Storage'', ''editzone'', ''c1'', ''proj'', ''a.txt''] = None
   \<and> read_text (snd (store_maintenance sample_host_dir sample_valves 1000000
                    (snd (edit_open sample_host_dir ''Storage'' sample_fs [''u''] ''u1'' ''c1'' 0
                            ''proj''))
                    [''u'']))
        [''u'', ''Storage'', ''locks'', ''proj.lock''] = Some sample_dir_lock_text"
  by code_simp

theorem maintenance_removes_fresh_directory_edit_witness:
  "lookup (snd (store_maintenance sample_host_dir sample_valves 1000000
                    (snd (edit_open sample_host_dir ''Storage'' sample_fs [''u''] ''u1'' ''c1'' 0
                            ''proj''))
                    [''u'']))
        [''u'', ''Storage'', ''editzone'', ''c1'', ''proj'', ''a.txt''] = None"
  using maintenance_removes_fresh_directory_edit by blast

end
